theory Spec2Isabelle
  imports Complex_Main "HOL-Library.Char_ord" "HOL-Library.List_Lexorder" "HOL-Library.Sublist"
begin

section \<open>Real-time asbestos monitoring: the session engine of asbestos_monitoring_system.py\<close>

text \<open>
  The development embeds the class \<^verbatim>\<open>AsbestosMonitoringSystem\<close> and the function
  \<^verbatim>\<open>main\<close> of \<^verbatim>\<open>src/asbestos_monitoring_system.py\<close>.

  Numbers. A concentration is a Python float. It is modelled as a \<^typ>\<open>real\<close>, and the
  float literals \<^verbatim>\<open>0.01\<close> and \<^verbatim>\<open>0.1\<close> as the rationals \<open>1/100\<close> and \<open>1/10\<close>. A
  comparison of two floats is exact, and the double nearest to \<open>1/100\<close> (to \<open>1/10\<close>) lies
  above it with no double in between, so for every finite double \<open>c\<close> the test
  \<^verbatim>\<open>c < 0.01\<close> of the program and the test \<open>c < 1/100\<close> of the model agree (likewise for
  \<^verbatim>\<open>0.1\<close>). NaN is not a real number and is outside the model.
\<close>

subsection \<open>The risk classifier (lines 48-54)\<close>

text \<open>
  \<^verbatim>\<open>
  def calculate_risk_level(self, concentration):
      if concentration < 0.01:   return "Low"
      elif concentration < 0.1:  return "Medium"
      else:                      return "High"
  \<close>
  The method reads nothing of \<^verbatim>\<open>self\<close> and assigns nothing, so it is a function of the
  concentration alone.
\<close>

definition calculate_risk_level :: "real \<Rightarrow> string" where
  "calculate_risk_level concentration =
     (if concentration < 1 / 100 then ''Low''
      else if concentration < 1 / 10 then ''Medium''
      else ''High'')"

subsection \<open>Dates and times\<close>

text \<open>
  A \<^verbatim>\<open>datetime.datetime\<close> is its seven fields. \<^verbatim>\<open>datetime.now()\<close> returns a naive
  value, and two naive values are compared field by field, most significant first.
\<close>

record datetime =
  year :: nat
  month :: nat
  day :: nat
  hour :: nat
  minute :: nat
  second :: nat
  microsecond :: nat

definition dt_fields :: "datetime \<Rightarrow> nat list" where
  "dt_fields d = [year d, month d, day d, hour d, minute d, second d, microsecond d]"

definition datetime_le :: "datetime \<Rightarrow> datetime \<Rightarrow> bool" where
  "datetime_le a b = (dt_fields a \<le> dt_fields b)"

definition is_leap :: "nat \<Rightarrow> bool" where
  "is_leap y = (y mod 4 = 0 \<and> (y mod 100 \<noteq> 0 \<or> y mod 400 = 0))"

definition days_in_month :: "nat \<Rightarrow> nat \<Rightarrow> nat" where
  "days_in_month y m =
     (if m = 2 \<and> is_leap y then 29
      else [31, 28, 31, 30, 31, 30, 31, 31, 30, 31, 30, 31] ! (m - 1))"

definition valid_datetime :: "datetime \<Rightarrow> bool" where
  "valid_datetime d =
     (1 \<le> year d \<and> year d \<le> 9999 \<and> 1 \<le> month d \<and> month d \<le> 12
      \<and> 1 \<le> day d \<and> day d \<le> days_in_month (year d) (month d)
      \<and> hour d < 24 \<and> minute d < 60 \<and> second d < 60 \<and> microsecond d < 1000000)"

text \<open>
  The difference of two datetimes, as \<^verbatim>\<open>(a - b).total_seconds()\<close> computes it: the
  proleptic Gregorian day number of each date, then days, seconds and microseconds.
\<close>

definition days_before_year :: "nat \<Rightarrow> int" where
  "days_before_year y =
     (let p = int y - 1 in p * 365 + p div 4 - p div 100 + p div 400)"

definition days_before_month :: "nat \<Rightarrow> nat \<Rightarrow> int" where
  "days_before_month y m =
     [0, 31, 59, 90, 120, 151, 181, 212, 243, 273, 304, 334] ! (m - 1)
     + (if 2 < m \<and> is_leap y then 1 else 0)"

definition toordinal :: "datetime \<Rightarrow> int" where
  "toordinal d = days_before_year (year d) + days_before_month (year d) (month d) + int (day d)"

definition total_seconds :: "datetime \<Rightarrow> datetime \<Rightarrow> real" where
  "total_seconds a b =
     (let days = toordinal a - toordinal b;
          secs = (int (second a) + int (minute a) * 60 + int (hour a) * 3600)
               - (int (second b) + int (minute b) * 60 + int (hour b) * 3600);
          micros = int (microsecond a) - int (microsecond b)
      in real_of_int ((days * 86400 + secs) * 1000000 + micros) / 1000000)"

text \<open>
  \<^verbatim>\<open>strftime("%Y%m%d_%H%M%S")\<close>: the year on four digits, every other field on two,
  zero-padded. Some C libraries print a year below 1000 on fewer digits; the model is
  exact from the year 1000 on.
\<close>

definition digit_char :: "nat \<Rightarrow> char" where
  "digit_char n = ''0123456789'' ! (n mod 10)"

definition pad2 :: "nat \<Rightarrow> string" where
  "pad2 n = [digit_char (n div 10), digit_char n]"

definition pad4 :: "nat \<Rightarrow> string" where
  "pad4 n = [digit_char (n div 1000), digit_char (n div 100), digit_char (n div 10), digit_char n]"

definition strftime :: "datetime \<Rightarrow> string" where
  "strftime d =
     pad4 (year d) @ pad2 (month d) @ pad2 (day d) @ ''_''
     @ pad2 (hour d) @ pad2 (minute d) @ pad2 (second d)"

subsection \<open>Exceptions\<close>

text \<open>
  The exceptions the session can meet. \<^verbatim>\<open>KeyboardInterrupt\<close> and \<^verbatim>\<open>SystemExit\<close>
  derive from \<^verbatim>\<open>BaseException\<close> only; every other one is an \<^verbatim>\<open>Exception\<close>.
  \<open>DatabaseError\<close> stands for the errors of \<^verbatim>\<open>sqlite3\<close>, \<open>OSError\<close> for a file that
  cannot be written.
\<close>

datatype exn =
    KeyboardInterrupt
  | SystemExit
  | NameError
  | TypeError
  | AttributeError
  | ValueError
  | DatabaseError
  | OverflowError
  | OSError
  | OtherException string

fun is_Exception :: "exn \<Rightarrow> bool" where
  "is_Exception KeyboardInterrupt = False"
| "is_Exception SystemExit = False"
| "is_Exception _ = True"

subsection \<open>The state of an \<^verbatim>\<open>AsbestosMonitoringSystem\<close>\<close>

text \<open>
  \<^verbatim>\<open>self.timestamps\<close> holds the integer \<^verbatim>\<open>0\<close> that \<^verbatim>\<open>__init__\<close> puts there, and then
  datetimes. \<^verbatim>\<open>self.readings\<close> holds the integer \<^verbatim>\<open>0\<close> and then floats, all of them
  reals here.
\<close>

datatype stamp = ZeroInt | Datetime datetime

text \<open>
  One row of the table \<^verbatim>\<open>asbestos_readings\<close> (without its \<^verbatim>\<open>id\<close>), and one row of the
  exported data frame. The field names are the columns of the export.
\<close>

record row =
  Timestamp :: stamp
  Location :: string
  Concentration :: real
  Risk_Level :: string

record csv_file =
  filename :: string
  header :: "string list"
  data_rows :: "row list"

text \<open>What \<^verbatim>\<open>print\<close> wrote: one constructor for each message of the program.\<close>

datatype message =
    Starting string
  | PressCtrlC
  | TimeLine datetime
  | LocationLine string
  | ConcentrationLine real
  | RiskLine string
  | HighWarning
  | Separator
  | StoppedByUser
  | ErrorDuring exn
  | DataExported string
  | SessionEnded
  | InvalidDuration

record system =
  readings :: "real list"
  timestamps :: "stamp list"
  db_rows :: "row list"
  db_closed :: bool
  close_calls :: nat
  csv_files :: "csv_file list"
  ax_xlim :: "real \<times> real"
  ax_ylim :: "real \<times> real"
  line_data :: "real list \<times> real list"
  fig_closed :: bool
  stdout :: "message list"

text \<open>
  \<^verbatim>\<open>__init__\<close> (lines 9-33). The database file may hold the rows of earlier sessions
  (\<^verbatim>\<open>CREATE TABLE IF NOT EXISTS\<close>): they are the argument. The plot starts with the line
  through the two seed lists and the limits \<open>(0, 60)\<close> and \<open>(0, 0.15)\<close>.
\<close>

definition init :: "row list \<Rightarrow> system" where
  "init existing =
     \<lparr> readings = [0], timestamps = [ZeroInt], db_rows = existing, db_closed = False,
       close_calls = 0, csv_files = [], ax_xlim = (0, 60), ax_ylim = (0, 15 / 100),
       line_data = ([0], [0]), fig_closed = False, stdout = [] \<rparr>"

subsection \<open>The live view (lines 56-71)\<close>

text \<open>
  \<^verbatim>\<open>
  def update_plot(self, frame):
      if len(self.timestamps) > 1:
          current_time = (self.timestamps[-1] - self.timestamps[1]).total_seconds()
          self.ax.set_xlim(max(0, current_time - 60), current_time + 5)
          plot_times = [(t - self.timestamps[1]).total_seconds() for t in self.timestamps[1:]]
          self.line.set_data(plot_times, self.readings[1:])
          current_max = max(self.readings)
          if current_max > self.ax.get_ylim()[1]:
              self.ax.set_ylim(0, current_max * 1.1)
      return self.line,
  \<close>
  Subtracting an integer and a datetime raises \<^verbatim>\<open>TypeError\<close>; the difference of two
  integers has no \<^verbatim>\<open>total_seconds\<close>; \<^verbatim>\<open>max\<close> of an empty list raises
  \<^verbatim>\<open>ValueError\<close>. The result is the state the call leaves and the exception it raised,
  if any. The limits and the line data are the exact values that the floats of the
  program approximate.
\<close>

fun stamp_seconds :: "stamp \<Rightarrow> stamp \<Rightarrow> exn + real" where
  "stamp_seconds (Datetime a) (Datetime b) = Inr (total_seconds a b)"
| "stamp_seconds ZeroInt ZeroInt = Inl AttributeError"
| "stamp_seconds _ _ = Inl TypeError"

fun plot_times_of :: "stamp list \<Rightarrow> stamp \<Rightarrow> exn + real list" where
  "plot_times_of [] b = Inr []"
| "plot_times_of (t # ts) b =
     (case stamp_seconds t b of
        Inl e \<Rightarrow> Inl e
      | Inr x \<Rightarrow> (case plot_times_of ts b of Inl e \<Rightarrow> Inl e | Inr xs \<Rightarrow> Inr (x # xs)))"

definition update_plot :: "nat \<Rightarrow> system \<Rightarrow> system \<times> exn option" where
  "update_plot frame s =
     (if 1 < length (timestamps s) then
        (case stamp_seconds (last (timestamps s)) (timestamps s ! 1) of
           Inl e \<Rightarrow> (s, Some e)
         | Inr current_time \<Rightarrow>
             let s1 = s\<lparr>ax_xlim := (max 0 (current_time - 60), current_time + 5)\<rparr> in
             (case plot_times_of (tl (timestamps s1)) (timestamps s1 ! 1) of
                Inl e \<Rightarrow> (s1, Some e)
              | Inr plot_times \<Rightarrow>
                  let s2 = s1\<lparr>line_data := (plot_times, tl (readings s1))\<rparr> in
                  (case readings s2 of
                     [] \<Rightarrow> (s2, Some ValueError)
                   | r # rs \<Rightarrow>
                       let current_max = fold max rs r in
                       if snd (ax_ylim s2) < current_max
                       then (s2\<lparr>ax_ylim := (0, current_max * (11 / 10))\<rparr>, None)
                       else (s2, None))))
      else (s, None))"

subsection \<open>The exporter (lines 73-82)\<close>

text \<open>
  \<^verbatim>\<open>
  def export_to_csv(self, location):
      df = pd.DataFrame({
          'Timestamp': self.timestamps[1:],
          'Location': [location] * (len(self.timestamps) - 1),
          'Concentration': self.readings[1:],
          'Risk_Level': [self.calculate_risk_level(c) for c in self.readings[1:]]})
      filename = f'asbestos_readings_{datetime.datetime.now().strftime("%Y%m%d_%H%M%S")}.csv'
      df.to_csv(filename, index=False)
      return filename
  \<close>
  \<^verbatim>\<open>pd.DataFrame\<close> raises \<^verbatim>\<open>ValueError\<close> when its columns differ in length. The first
  argument is what \<^verbatim>\<open>datetime.now()\<close> returns inside the call. The second is what
  \<^verbatim>\<open>df.to_csv\<close> (line 81) does: it writes the file, or it raises, and then no file is
  counted and the exception leaves the method.
\<close>

fun data_frame :: "stamp list \<Rightarrow> string list \<Rightarrow> real list \<Rightarrow> string list \<Rightarrow> row list" where
  "data_frame (t # ts) (l # ls) (c # cs) (r # rs) =
     \<lparr> Timestamp = t, Location = l, Concentration = c, Risk_Level = r \<rparr> # data_frame ts ls cs rs"
| "data_frame _ _ _ _ = []"

definition export_to_csv ::
  "datetime \<Rightarrow> exn option \<Rightarrow> string \<Rightarrow> system \<Rightarrow> exn + (string \<times> system)" where
  "export_to_csv export_now write_outcome location s =
     (let col_timestamp = tl (timestamps s);
          col_location = replicate (length (timestamps s) - 1) location;
          col_concentration = tl (readings s);
          col_risk = map calculate_risk_level (tl (readings s))
      in if length col_timestamp = length col_location
            \<and> length col_location = length col_concentration
            \<and> length col_concentration = length col_risk
         then
           let name = ''asbestos_readings_'' @ strftime export_now @ ''.csv'';
               file = \<lparr> filename = name,
                        header = [''Timestamp'', ''Location'', ''Concentration'', ''Risk_Level''],
                        data_rows = data_frame col_timestamp col_location col_concentration col_risk \<rparr>
           in (case write_outcome of
                 Some e \<Rightarrow> Inl e
               | None \<Rightarrow> Inr (name, s\<lparr>csv_files := csv_files s @ [file]\<rparr>))
         else Inl ValueError)"

subsection \<open>The sampling loop (lines 105-154)\<close>

text \<open>
  What the world answers in one iteration of the loop: the value of \<^verbatim>\<open>time.time()\<close> in
  the loop test, the sample of the sensor (\<^verbatim>\<open>np.random.uniform(0, 0.2)\<close> in the program),
  the value of \<^verbatim>\<open>datetime.now()\<close>, whether the insertion into the database (cursor,
  execute, commit) raised, and whether \<^verbatim>\<open>plt.pause(5)\<close> raised: the process waits there,
  so that is where an interrupt of the operator arrives. A run is scripted by a list
  of such answers.
\<close>

record tick =
  clock :: real
  sample :: real
  now :: datetime
  insert_outcome :: "exn option"
  pause_outcome :: "exn option"

text \<open>
  The body of the loop (lines 107-140). Both lists are extended before the database is
  touched. A closed connection refuses every operation. The calls of \<^verbatim>\<open>update_plot\<close>
  that the animation timer makes during the pause change display fields only and are
  left out.
\<close>

definition tick_body :: "string \<Rightarrow> tick \<Rightarrow> system \<Rightarrow> system \<times> exn option" where
  "tick_body location t s =
     (let concentration = sample t;
          risk_level = calculate_risk_level concentration;
          current_time = now t;
          s1 = s\<lparr>readings := readings s @ [concentration],
                 timestamps := timestamps s @ [Datetime current_time]\<rparr>
      in case (if db_closed s1 then Some DatabaseError else insert_outcome t) of
           Some e \<Rightarrow> (s1, Some e)
         | None \<Rightarrow>
             let s2 = s1\<lparr>db_rows := db_rows s1 @
                          [\<lparr> Timestamp = Datetime current_time, Location = location,
                             Concentration = concentration, Risk_Level = risk_level \<rparr>]\<rparr>;
                 s3 = s2\<lparr>stdout := stdout s2 @
                          [TimeLine current_time, LocationLine location,
                           ConcentrationLine concentration, RiskLine risk_level]
                          @ (if risk_level = ''High'' then [HighWarning] else [])
                          @ [Separator]\<rparr>
             in (s3, pause_outcome t))"

text \<open>
  The \<^verbatim>\<open>while\<close> loop (line 106). It ends when the clock has reached \<open>end_time\<close>
  (\<open>Completed\<close>) or when its body raises (\<open>Raised\<close>); \<open>ScriptEnd\<close> says that the script
  is used up and the loop is still running.
\<close>

datatype loop_exit = Completed | Raised exn | ScriptEnd

fun monitoring_loop :: "real \<Rightarrow> string \<Rightarrow> tick list \<Rightarrow> system \<Rightarrow> system \<times> loop_exit" where
  "monitoring_loop end_time location [] s = (s, ScriptEnd)"
| "monitoring_loop end_time location (t # ts) s =
     (if clock t < end_time then
        (case tick_body location t s of
           (s', Some e) \<Rightarrow> (s', Raised e)
         | (s', None) \<Rightarrow> monitoring_loop end_time location ts s')
      else (s, Completed))"

text \<open>
  The \<^verbatim>\<open>finally\<close> clause (lines 146-154): export when there is more than the seed
  reading, then close the connection and the figure. An exception of the export leaves
  the clause at once: line 152 is not reached, and the connection stays open.
\<close>

definition finally_clause ::
  "datetime \<Rightarrow> exn option \<Rightarrow> string \<Rightarrow> system \<Rightarrow> system \<times> exn option" where
  "finally_clause export_now write_outcome location s =
     (case (if 1 < length (readings s) then
              (case export_to_csv export_now write_outcome location s of
                 Inl e \<Rightarrow> Inl e
               | Inr (csv_name, s1) \<Rightarrow> Inr (s1\<lparr>stdout := stdout s1 @ [DataExported csv_name]\<rparr>))
            else Inr s) of
        Inl e \<Rightarrow> (s, Some e)
      | Inr s1 \<Rightarrow>
          (s1\<lparr>db_closed := True, close_calls := close_calls s1 + 1,
              stdout := stdout s1 @ [SessionEnded], fig_closed := True\<rparr>, None))"

text \<open>
  The \<^verbatim>\<open>try\<close> statement (lines 105-154). \<^verbatim>\<open>KeyboardInterrupt\<close> and every
  \<^verbatim>\<open>Exception\<close> are handled and reported; any other exception is raised again after the
  \<^verbatim>\<open>finally\<close> clause. The result is \<open>None\<close> when the script ends before the loop
  does, else the final state and the exception that leaves the statement, if any.
\<close>

definition try_statement ::
  "real \<Rightarrow> string \<Rightarrow> tick list \<Rightarrow> datetime \<Rightarrow> exn option \<Rightarrow> system
     \<Rightarrow> (system \<times> exn option) option" where
  "try_statement end_time location script export_now write_outcome s =
     (case monitoring_loop end_time location script s of
        (s1, ScriptEnd) \<Rightarrow> None
      | (s1, Completed) \<Rightarrow> Some (finally_clause export_now write_outcome location s1)
      | (s1, Raised e) \<Rightarrow>
          if e = KeyboardInterrupt then
            Some (finally_clause export_now write_outcome location (s1\<lparr>stdout := stdout s1 @ [StoppedByUser]\<rparr>))
          else if is_Exception e then
            Some (finally_clause export_now write_outcome location (s1\<lparr>stdout := stdout s1 @ [ErrorDuring e]\<rparr>))
          else
            (case finally_clause export_now write_outcome location s1 of
               (s2, None) \<Rightarrow> Some (s2, Some e)
             | (s2, Some e') \<Rightarrow> Some (s2, Some e')))"

subsection \<open>The session (lines 84-154)\<close>

text \<open>
  The module imports \<^verbatim>\<open>datetime\<close>, \<^verbatim>\<open>numpy\<close>, \<^verbatim>\<open>sqlite3\<close>, \<^verbatim>\<open>matplotlib\<close> and
  \<^verbatim>\<open>pandas\<close>, and it has no \<^verbatim>\<open>import time\<close>: the name \<^verbatim>\<open>time\<close> of line 88 is looked
  up among the globals of the module when the line runs. \<open>time_bound\<close> says whether that
  lookup succeeds. When it does not, line 88 raises \<^verbatim>\<open>NameError\<close> before the \<^verbatim>\<open>try\<close>
  statement is entered, so nothing is handled, exported or closed.

  Line 89 adds the integer \<^verbatim>\<open>duration_minutes * 60\<close> to a float. The integer is
  converted first, and an integer of magnitude \<open>2^1024 - 2^970\<close> or more has no double:
  the conversion raises \<^verbatim>\<open>OverflowError\<close>. Below that the sum is kept exact here.

  Lines 92-103 create the animation with \<^verbatim>\<open>int(duration_minutes * 60 / 5)\<close> frames, show
  the window and run the event loop for a tenth of a second. Whether these calls raise
  is the answer \<open>setup_outcome\<close> of the world. All of this comes before the \<^verbatim>\<open>try\<close>
  statement: an exception there leaves the method at once.
\<close>

definition float_of_int :: "int \<Rightarrow> exn + real" where
  "float_of_int n =
     (if \<bar>n\<bar> < 2 ^ 1024 - 2 ^ 970 then Inr (real_of_int n) else Inl OverflowError)"

record world =
  time_bound :: bool
  start_clock :: real
  setup_outcome :: "exn option"
  ticks :: "tick list"
  export_now :: datetime
  csv_write :: "exn option"

definition real_time_monitoring ::
  "world \<Rightarrow> string \<Rightarrow> int \<Rightarrow> system \<Rightarrow> (system \<times> exn option) option" where
  "real_time_monitoring w location duration_minutes s =
     (let s0 = s\<lparr>stdout := stdout s @ [Starting location, PressCtrlC]\<rparr> in
      if \<not> time_bound w then Some (s0, Some NameError)
      else
        let start_time = start_clock w in
        (case float_of_int (duration_minutes * 60) of
           Inl e \<Rightarrow> Some (s0, Some e)
         | Inr seconds \<Rightarrow>
             let end_time = start_time + seconds in
             (case setup_outcome w of
                Some e \<Rightarrow> Some (s0, Some e)
              | None \<Rightarrow>
                  try_statement end_time location (ticks w) (export_now w) (csv_write w) s0)))"

text \<open>
  The session reaches its \<^verbatim>\<open>try\<close> statement when \<^verbatim>\<open>time\<close> is bound, the duration
  has a double, and the set-up does not raise.
\<close>

definition reaches_try :: "world \<Rightarrow> int \<Rightarrow> bool" where
  "reaches_try w duration_minutes =
     (time_bound w \<and> \<bar>duration_minutes * 60\<bar> < 2 ^ 1024 - 2 ^ 970 \<and> setup_outcome w = None)"

subsection \<open>The command line (lines 156-171)\<close>

text \<open>
  \<^verbatim>\<open>int(text)\<close> on a string: surrounding white space (tab to carriage return, the
  space, and the code points 133 and 160) is dropped, a sign may come first, then
  decimal digits, single underscores allowed between two digits; more than 4300 digits
  are refused. Anything else raises \<^verbatim>\<open>ValueError\<close> (\<open>None\<close>). Characters are code
  points below 256.
\<close>

definition is_space :: "char \<Rightarrow> bool" where
  "is_space c =
     (let n = (of_char c :: nat) in (9 \<le> n \<and> n \<le> 13) \<or> n = 32 \<or> n = 133 \<or> n = 160)"

definition is_digit :: "char \<Rightarrow> bool" where
  "is_digit c = (let n = (of_char c :: nat) in 48 \<le> n \<and> n \<le> 57)"

definition digit_val :: "char \<Rightarrow> nat" where
  "digit_val c = of_char c - 48"

fun py_digits :: "string \<Rightarrow> nat \<Rightarrow> nat option" where
  "py_digits [] acc = Some acc"
| "py_digits [c] acc = (if is_digit c then Some (10 * acc + digit_val c) else None)"
| "py_digits (c # d # cs) acc =
     (if is_digit c then py_digits (d # cs) (10 * acc + digit_val c)
      else if c = CHR ''_'' \<and> is_digit d then py_digits (d # cs) acc
      else None)"

definition py_nat :: "string \<Rightarrow> nat option" where
  "py_nat cs =
     (case cs of
        [] \<Rightarrow> None
      | c # _ \<Rightarrow>
          if is_digit c \<and> length (filter is_digit cs) \<le> 4300 then py_digits cs 0 else None)"

definition strip :: "string \<Rightarrow> string" where
  "strip cs = rev (dropWhile is_space (rev (dropWhile is_space cs)))"

definition py_int :: "string \<Rightarrow> int option" where
  "py_int text =
     (case strip text of
        [] \<Rightarrow> None
      | c # cs \<Rightarrow>
          if c = CHR ''-'' then map_option (\<lambda>n. - int n) (py_nat cs)
          else if c = CHR ''+'' then map_option int (py_nat cs)
          else map_option int (py_nat (c # cs)))"

text \<open>
  Lines 164-168: the duration that \<^verbatim>\<open>main\<close> reads, and what it prints.
  \<^verbatim>\<open>
  try:
      duration = int(input("Enter monitoring duration in minutes (default 60): ") or "60")
  except ValueError:
      duration = 60
      print("Invalid duration. Using default 60 minutes.")
  \<close>
\<close>

definition read_duration :: "string \<Rightarrow> int \<times> message list" where
  "read_duration typed =
     (case py_int (if typed = [] then ''60'' else typed) of
        Some duration \<Rightarrow> (duration, [])
      | None \<Rightarrow> (60, [InvalidDuration]))"

text \<open>
  \<^verbatim>\<open>main\<close>: a fresh system, the two answers of the operator, one session.
\<close>

definition main ::
  "row list \<Rightarrow> string \<Rightarrow> string \<Rightarrow> world \<Rightarrow> (system \<times> exn option) option" where
  "main existing location_typed duration_typed w =
     (let system0 = init existing;
          (duration, printed) = read_duration duration_typed;
          system1 = system0\<lparr>stdout := stdout system0 @ printed\<rparr>
      in real_time_monitoring w location_typed duration system1)"

subsection \<open>The sensor\<close>


subsection \<open>A scripted session\<close>

text \<open>
  A scenario after the one the specification describes: one minute, one tick every five
  seconds, twelve samples. The thirteenth reading of the clock reaches the planned end.
  It is used to run the theorems below on concrete input.
\<close>

definition demo_time :: "nat \<Rightarrow> datetime" where
  "demo_time k =
     \<lparr> year = 2024, month = 5, day = 17, hour = 10, minute = k div 60, second = k mod 60,
       microsecond = 0 \<rparr>"

definition demo_tick :: "nat \<Rightarrow> real \<Rightarrow> tick" where
  "demo_tick k c =
     \<lparr> clock = 1000 + 5 * real k, sample = c, now = demo_time (5 * k),
       insert_outcome = None, pause_outcome = None \<rparr>"

fun demo_ticks :: "nat \<Rightarrow> real list \<Rightarrow> tick list" where
  "demo_ticks k [] = [demo_tick k 0]"
| "demo_ticks k (c # cs) = demo_tick k c # demo_ticks (Suc k) cs"

definition demo_samples :: "real list" where
  "demo_samples =
     [5 / 1000, 2 / 100, 15 / 100, 5 / 1000, 1 / 100, 8 / 100,
      12 / 100, 3 / 100, 1 / 1000, 7 / 100, 19 / 100, 9 / 1000]"

definition demo_world :: world where
  "demo_world =
     \<lparr> time_bound = True, start_clock = 1000, setup_outcome = None,
       ticks = demo_ticks 0 demo_samples, export_now = demo_time 61, csv_write = None \<rparr>"

text \<open>Three short scripts: the operator interrupts the second pause; the second insertion
  fails; the process is told to exit during the second pause.\<close>

definition demo_short :: "exn option \<Rightarrow> exn option \<Rightarrow> world" where
  "demo_short ins pau =
     \<lparr> time_bound = True, start_clock = 1000, setup_outcome = None,
       ticks = [demo_tick 0 (5 / 1000),
                (demo_tick 1 (2 / 100))\<lparr>insert_outcome := ins, pause_outcome := pau\<rparr>,
                demo_tick 2 (15 / 100)],
       export_now = demo_time 61, csv_write = None \<rparr>"

text \<open>
  The module as it is: \<^verbatim>\<open>time\<close> is not bound. The other answers of the world are then
  never asked for.
\<close>

definition shipped_world :: world where
  "shipped_world = demo_world\<lparr>time_bound := False\<rparr>"

section \<open>Theorems\<close>

text \<open>The definitions that a run on a concrete script unfolds.\<close>

lemmas demo_eval =
  real_time_monitoring_def try_statement_def finally_clause_def export_to_csv_def tick_body_def
  init_def calculate_risk_level_def demo_world_def demo_short_def demo_samples_def demo_tick_def
  demo_time_def shipped_world_def float_of_int_def Let_def

subsection \<open>The classifier\<close>

text \<open>
  Claim C1. For every concentration \<open>c \<ge> 0\<close> the classifier answers Low exactly when
  \<open>c < 0.01\<close>, Medium exactly when \<open>0.01 \<le> c < 0.1\<close> and High exactly when \<open>c \<ge> 0.1\<close>;
  the boundary \<open>0.01\<close> is Medium and the boundary \<open>0.1\<close> is High. The classifier is a
  total function of the concentration alone, so it is pure.
\<close>

theorem calculate_risk_level_tiers:
  assumes "0 \<le> c"
  shows "(calculate_risk_level c = ''Low'' \<longleftrightarrow> c < 1 / 100)
       \<and> (calculate_risk_level c = ''Medium'' \<longleftrightarrow> 1 / 100 \<le> c \<and> c < 1 / 10)
       \<and> (calculate_risk_level c = ''High'' \<longleftrightarrow> 1 / 10 \<le> c)
       \<and> calculate_risk_level (1 / 100) = ''Medium''
       \<and> calculate_risk_level (1 / 10) = ''High''"
  by (simp add: calculate_risk_level_def)

theorem calculate_risk_level_tiers_witness:
  "(0::real) \<le> 9999 / 1000000
   \<and> calculate_risk_level (9999 / 1000000) = ''Low''
   \<and> calculate_risk_level (99999 / 1000000) \<noteq> ''High''"
proof -
  have low: "(0::real) \<le> 9999 / 1000000" by simp
  have med: "(0::real) \<le> 99999 / 1000000" by simp
  from calculate_risk_level_tiers [OF low] calculate_risk_level_tiers [OF med] low
  show ?thesis by simp
qed

text \<open>
  Claim C10. On every real input, negative values and values above \<open>0.2\<close> included, the
  classifier returns one of the three strings Low, Medium, High, and exactly one; every
  negative concentration is mapped to Low.
\<close>

theorem calculate_risk_level_total:
  "calculate_risk_level c \<in> {''Low'', ''Medium'', ''High''}
   \<and> (c < 0 \<longrightarrow> calculate_risk_level c = ''Low'')
   \<and> (1 / 5 < c \<longrightarrow> calculate_risk_level c = ''High'')"
  by (simp add: calculate_risk_level_def)

theorem calculate_risk_level_total_witness:
  "calculate_risk_level (- 1 / 100) = ''Low'' \<and> calculate_risk_level (1 / 4) = ''High''"
  using calculate_risk_level_total [of "- 1 / 100"] calculate_risk_level_total [of "1 / 4"]
  by simp

subsection \<open>One tick\<close>

lemma tick_body_readings: "readings (fst (tick_body location t s)) = readings s @ [sample t]"
  by (simp add: tick_body_def Let_def split: option.splits)

lemma tick_body_timestamps:
  "timestamps (fst (tick_body location t s)) = timestamps s @ [Datetime (now t)]"
  by (simp add: tick_body_def Let_def split: option.splits)

lemma tick_body_other:
  "csv_files (fst (tick_body location t s)) = csv_files s"
  "close_calls (fst (tick_body location t s)) = close_calls s"
  "db_closed (fst (tick_body location t s)) = db_closed s"
  "fig_closed (fst (tick_body location t s)) = fig_closed s"
  by (simp_all add: tick_body_def Let_def split: option.splits)

lemma tick_body_raised:
  "snd (tick_body location t s) =
     (if db_closed s then Some DatabaseError
      else case insert_outcome t of Some e \<Rightarrow> Some e | None \<Rightarrow> pause_outcome t)"
  by (simp add: tick_body_def Let_def split: option.splits)

lemma tick_body_db_rows:
  "db_rows (fst (tick_body location t s)) =
     db_rows s @ (if \<not> db_closed s \<and> insert_outcome t = None
                  then [\<lparr> Timestamp = Datetime (now t), Location = location,
                          Concentration = sample t, Risk_Level = calculate_risk_level (sample t) \<rparr>]
                  else [])"
  by (simp add: tick_body_def Let_def split: option.splits)

subsection \<open>The loop\<close>

text \<open>
  Whatever the script, the loop has run the bodies of its first \<open>k\<close> ticks, in order,
  and each body has appended one sample and one datetime.
\<close>

lemma loop_buffer:
  "\<exists>k \<le> length script.
      readings (fst (monitoring_loop end_time location script s)) = readings s @ map sample (take k script)
    \<and> timestamps (fst (monitoring_loop end_time location script s))
        = timestamps s @ map (\<lambda>t. Datetime (now t)) (take k script)"
proof (induction script arbitrary: s)
  case Nil
  then show ?case by simp
next
  case (Cons t ts)
  show ?case
  proof (cases "clock t < end_time")
    case False
    then show ?thesis by (intro exI [of _ 0]) simp
  next
    case True
    obtain s' r where tb: "tick_body location t s = (s', r)" by (cases "tick_body location t s")
    have rs: "readings s' = readings s @ [sample t]" "timestamps s' = timestamps s @ [Datetime (now t)]"
      using tick_body_readings [of location t s] tick_body_timestamps [of location t s] tb by simp_all
    show ?thesis
    proof (cases r)
      case (Some e)
      with True tb rs show ?thesis by (intro exI [of _ 1]) simp
    next
      case None
      from Cons.IH [of s'] obtain k where k: "k \<le> length ts"
        "readings (fst (monitoring_loop end_time location ts s')) = readings s' @ map sample (take k ts)"
        "timestamps (fst (monitoring_loop end_time location ts s'))
           = timestamps s' @ map (\<lambda>t. Datetime (now t)) (take k ts)" by blast
      with True tb rs None show ?thesis by (intro exI [of _ "Suc k"]) simp
    qed
  qed
qed

lemma loop_other:
  "csv_files (fst (monitoring_loop end_time location script s)) = csv_files s"
  "close_calls (fst (monitoring_loop end_time location script s)) = close_calls s"
  "db_closed (fst (monitoring_loop end_time location script s)) = db_closed s"
  "fig_closed (fst (monitoring_loop end_time location script s)) = fig_closed s"
  by (induction script arbitrary: s; simp add: tick_body_other split: prod.splits option.splits;
      metis fst_conv tick_body_other)+

lemma loop_lengths:
  "length (readings s) = length (timestamps s) \<Longrightarrow>
   length (readings (fst (monitoring_loop end_time location script s)))
     = length (timestamps (fst (monitoring_loop end_time location script s)))"
  using loop_buffer [of script end_time location s] by auto

lemma loop_exits:
  assumes "t \<in> set script"
      and "end_time \<le> clock t \<or> insert_outcome t \<noteq> None \<or> pause_outcome t \<noteq> None"
  shows "snd (monitoring_loop end_time location script s) \<noteq> ScriptEnd"
  using assms
proof (induction script arbitrary: s)
  case Nil
  then show ?case by simp
next
  case (Cons u us)
  obtain s' r where tb: "tick_body location u s = (s', r)" by (cases "tick_body location u s")
  show ?case
  proof (cases "clock u < end_time")
    case False
    then show ?thesis by simp
  next
    case True
    show ?thesis
    proof (cases r)
      case (Some e)
      with True tb show ?thesis by simp
    next
      case None
      have "t \<noteq> u"
      proof
        assume "t = u"
        with Cons.prems True None tb tick_body_raised [of location u s]
        show False by (auto split: if_splits option.splits)
      qed
      with Cons.prems have "t \<in> set us" by simp
      from Cons.IH [OF this Cons.prems(2), of s'] True tb None show ?thesis by simp
    qed
  qed
qed

subsection \<open>Export and the end of the session\<close>

lemma export_to_csv_ok:
  assumes "length (readings s) = length (timestamps s)"
  shows "export_to_csv d None location s =
           Inr (''asbestos_readings_'' @ strftime d @ ''.csv'',
                s\<lparr>csv_files := csv_files s @
                    [\<lparr> filename = ''asbestos_readings_'' @ strftime d @ ''.csv'',
                       header = [''Timestamp'', ''Location'', ''Concentration'', ''Risk_Level''],
                       data_rows = data_frame (tl (timestamps s))
                          (replicate (length (timestamps s) - 1) location) (tl (readings s))
                          (map calculate_risk_level (tl (readings s))) \<rparr>]\<rparr>)"
  using assms by (simp add: export_to_csv_def Let_def)

lemma export_to_csv_write_fails:
  assumes "length (readings s) = length (timestamps s)"
  shows "export_to_csv d (Some e) location s = Inl e"
  using assms by (simp add: export_to_csv_def Let_def)

lemma data_frame_rows:
  "length ls = length ts \<Longrightarrow> length cs = length ts \<Longrightarrow> length rs = length ts \<Longrightarrow>
   length (data_frame ts ls cs rs) = length ts
   \<and> (\<forall>i<length ts. data_frame ts ls cs rs ! i =
        \<lparr> Timestamp = ts ! i, Location = ls ! i, Concentration = cs ! i, Risk_Level = rs ! i \<rparr>)"
proof (induction ts ls cs rs rule: data_frame.induct)
  case (1 t ts l ls c cs r rs)
  then show ?case by (auto simp: nth_Cons split: nat.splits)
qed simp_all

lemma finally_clause_ok:
  assumes "length (readings s) = length (timestamps s)"
      and "wr = None \<or> length (readings s) \<le> 1"
  shows "snd (finally_clause d wr location s) = None"
    and "readings (fst (finally_clause d wr location s)) = readings s"
    and "timestamps (fst (finally_clause d wr location s)) = timestamps s"
    and "db_rows (fst (finally_clause d wr location s)) = db_rows s"
    and "close_calls (fst (finally_clause d wr location s)) = close_calls s + 1"
    and "db_closed (fst (finally_clause d wr location s))"
    and "fig_closed (fst (finally_clause d wr location s))"
    and "csv_files (fst (finally_clause d wr location s)) =
           csv_files s @
           (if 1 < length (readings s)
            then [\<lparr> filename = ''asbestos_readings_'' @ strftime d @ ''.csv'',
                     header = [''Timestamp'', ''Location'', ''Concentration'', ''Risk_Level''],
                     data_rows = data_frame (tl (timestamps s))
                        (replicate (length (timestamps s) - 1) location) (tl (readings s))
                        (map calculate_risk_level (tl (readings s))) \<rparr>]
            else [])"
    and "stdout (fst (finally_clause d wr location s)) =
           stdout s @
           (if 1 < length (readings s)
            then [DataExported (''asbestos_readings_'' @ strftime d @ ''.csv'')] else [])
           @ [SessionEnded]"
  using assms by (auto simp: finally_clause_def export_to_csv_ok)

text \<open>When the file cannot be written, the clause is left before the connection is closed.\<close>

lemma finally_clause_write_fails:
  assumes "length (readings s) = length (timestamps s)"
      and "1 < length (readings s)"
  shows "finally_clause d (Some e) location s = (s, Some e)"
  using assms by (simp add: finally_clause_def export_to_csv_write_fails)

lemma try_statement_ends:
  assumes len: "length (readings s) = length (timestamps s)"
      and ex: "snd (monitoring_loop end_time location script s) \<noteq> ScriptEnd"
      and wr: "wr = None \<or> length (readings (fst (monitoring_loop end_time location script s))) \<le> 1"
  shows "\<exists>sf e. try_statement end_time location script d wr s = Some (sf, e)
      \<and> readings sf = readings (fst (monitoring_loop end_time location script s))
      \<and> timestamps sf = timestamps (fst (monitoring_loop end_time location script s))
      \<and> db_rows sf = db_rows (fst (monitoring_loop end_time location script s))
      \<and> close_calls sf = close_calls s + 1 \<and> db_closed sf \<and> fig_closed sf
      \<and> csv_files sf = csv_files s @
           (if 1 < length (readings sf)
            then [\<lparr> filename = ''asbestos_readings_'' @ strftime d @ ''.csv'',
                     header = [''Timestamp'', ''Location'', ''Concentration'', ''Risk_Level''],
                     data_rows = data_frame (tl (timestamps sf))
                        (replicate (length (timestamps sf) - 1) location) (tl (readings sf))
                        (map calculate_risk_level (tl (readings sf))) \<rparr>]
            else [])
      \<and> stdout sf = stdout (fst (monitoring_loop end_time location script s))
           @ (case snd (monitoring_loop end_time location script s) of
                Raised x \<Rightarrow> if x = KeyboardInterrupt then [StoppedByUser]
                            else if is_Exception x then [ErrorDuring x] else []
              | _ \<Rightarrow> [])
           @ (if 1 < length (readings sf)
              then [DataExported (''asbestos_readings_'' @ strftime d @ ''.csv'')] else [])
           @ [SessionEnded]
      \<and> e = (case snd (monitoring_loop end_time location script s) of
                Raised x \<Rightarrow> if x = KeyboardInterrupt \<or> is_Exception x then None else Some x
              | _ \<Rightarrow> None)"
proof -
  obtain s1 x where lp: "monitoring_loop end_time location script s = (s1, x)"
    by (cases "monitoring_loop end_time location script s")
  have l1: "length (readings s1) = length (timestamps s1)"
    using loop_lengths [OF len, of end_time location script] lp by simp
  have w1: "wr = None \<or> length (readings s1) \<le> 1" using wr lp by simp
  have o1: "csv_files s1 = csv_files s" "close_calls s1 = close_calls s"
    using loop_other [of end_time location script s] lp by simp_all
  have l2: "length (readings (s1\<lparr>stdout := m\<rparr>)) = length (timestamps (s1\<lparr>stdout := m\<rparr>))" for m
    using l1 by simp
  have w2: "wr = None \<or> length (readings (s1\<lparr>stdout := m\<rparr>)) \<le> 1" for m
    using w1 by simp
  note f1 = finally_clause_ok [OF l1 w1, of d location]
  note f2 = finally_clause_ok [OF l2 w2, of d location]
  show ?thesis
  proof (cases x)
    case Completed
    then show ?thesis using lp o1 f1
      by (cases "finally_clause d wr location s1") (simp add: try_statement_def)
  next
    case ScriptEnd
    with ex lp show ?thesis by simp
  next
    case (Raised y)
    show ?thesis
    proof (cases "y = KeyboardInterrupt")
      case True
      then show ?thesis using lp o1 Raised f2 [of "stdout s1 @ [StoppedByUser]"]
        by (cases "finally_clause d wr location (s1\<lparr>stdout := stdout s1 @ [StoppedByUser]\<rparr>)")
           (simp add: try_statement_def)
    next
      case False
      show ?thesis
      proof (cases "is_Exception y")
        case True
        then show ?thesis using lp o1 Raised False f2 [of "stdout s1 @ [ErrorDuring y]"]
          by (cases "finally_clause d wr location (s1\<lparr>stdout := stdout s1 @ [ErrorDuring y]\<rparr>)")
             (simp add: try_statement_def)
      next
        case nex: False
        then show ?thesis using lp o1 Raised False f1
          by (cases "finally_clause d wr location s1") (simp add: try_statement_def)
      qed
    qed
  qed
qed

text \<open>
  The other case: a reading was recorded and the file cannot be written. Whatever way
  the loop was left, the exception of the write leaves the statement, and nothing is
  closed.
\<close>

lemma try_statement_write_fails:
  assumes len: "length (readings s) = length (timestamps s)"
      and ex: "snd (monitoring_loop end_time location script s) \<noteq> ScriptEnd"
      and rd: "1 < length (readings (fst (monitoring_loop end_time location script s)))"
  shows "\<exists>sf. try_statement end_time location script d (Some y) s = Some (sf, Some y)
      \<and> readings sf = readings (fst (monitoring_loop end_time location script s))
      \<and> timestamps sf = timestamps (fst (monitoring_loop end_time location script s))
      \<and> db_rows sf = db_rows (fst (monitoring_loop end_time location script s))
      \<and> close_calls sf = close_calls s \<and> db_closed sf = db_closed s
      \<and> fig_closed sf = fig_closed s \<and> csv_files sf = csv_files s
      \<and> stdout sf = stdout (fst (monitoring_loop end_time location script s))
           @ (case snd (monitoring_loop end_time location script s) of
                Raised x \<Rightarrow> if x = KeyboardInterrupt then [StoppedByUser]
                            else if is_Exception x then [ErrorDuring x] else []
              | _ \<Rightarrow> [])"
proof -
  obtain s1 x where lp: "monitoring_loop end_time location script s = (s1, x)"
    by (cases "monitoring_loop end_time location script s")
  have l1: "length (readings s1) = length (timestamps s1)"
    using loop_lengths [OF len, of end_time location script] lp by simp
  have r1: "1 < length (readings s1)" using rd lp by simp
  have o1: "csv_files s1 = csv_files s" "close_calls s1 = close_calls s"
    "db_closed s1 = db_closed s" "fig_closed s1 = fig_closed s"
    using loop_other [of end_time location script s] lp by simp_all
  have l2: "length (readings (s1\<lparr>stdout := m\<rparr>)) = length (timestamps (s1\<lparr>stdout := m\<rparr>))" for m
    using l1 by simp
  have r2: "1 < length (readings (s1\<lparr>stdout := m\<rparr>))" for m using r1 by simp
  note f1 = finally_clause_write_fails [OF l1 r1, of d y location]
  note f2 = finally_clause_write_fails [OF l2 r2, of d y location]
  show ?thesis
  proof (cases x)
    case Completed
    then show ?thesis using lp o1 f1 by (simp add: try_statement_def)
  next
    case ScriptEnd
    with ex lp show ?thesis by simp
  next
    case (Raised z)
    then show ?thesis using lp o1 f1 f2 by (simp add: try_statement_def)
  qed
qed

lemma try_statement_None:
  "snd (monitoring_loop end_time location script s) = ScriptEnd \<Longrightarrow>
   try_statement end_time location script d wr s = None"
  by (cases "monitoring_loop end_time location script s") (simp add: try_statement_def)

subsection \<open>The order of file names\<close>

lemma nat_less_digits:
  "((n::nat) < m) = (n div 10 < m div 10 \<or> n div 10 = m div 10 \<and> n mod 10 < m mod 10)"
proof -
  have n: "n = 10 * (n div 10) + n mod 10" and m: "m = 10 * (m div 10) + m mod 10"
    by simp_all
  have r: "n mod 10 < 10" and q: "m mod 10 < 10" by simp_all
  show ?thesis
  proof
    assume "n < m"
    with n m r q show "n div 10 < m div 10 \<or> n div 10 = m div 10 \<and> n mod 10 < m mod 10"
      by linarith
  next
    assume "n div 10 < m div 10 \<or> n div 10 = m div 10 \<and> n mod 10 < m mod 10"
    with n m r q show "n < m" by linarith
  qed
qed

lemma nat_eq_digits:
  "((n::nat) = m) = (n div 10 = m div 10 \<and> n mod 10 = m mod 10)"
  by (metis div_mult_mod_eq)

lemma append_less_iff:
  "length a = length b \<Longrightarrow> (a @ x < b @ y) = (a < b \<or> a = b \<and> x < (y :: 'a :: linorder list))"
  by (induction a b rule: list_induct2) auto

lemma append_le_iff:
  "length a = length b \<Longrightarrow> (a @ x \<le> b @ y) = (a < b \<or> a = b \<and> x \<le> (y :: 'a :: linorder list))"
  by (induction a b rule: list_induct2) auto

lemma digit_below_ten:
  "k < (10::nat) \<Longrightarrow> k = 0 \<or> k = 1 \<or> k = 2 \<or> k = 3 \<or> k = 4 \<or> k = 5 \<or> k = 6 \<or> k = 7 \<or> k = 8 \<or> k = 9"
  by arith

lemma digit_char_code: "of_char (digit_char n) = (48 + n mod 10 :: nat)"
proof -
  have "n mod 10 < 10" by simp
  from digit_below_ten [OF this] show ?thesis
    unfolding digit_char_def by (elim disjE) simp_all
qed

lemma digit_char_less: "(digit_char a < digit_char b) = (a mod 10 < b mod 10)"
  by (simp add: less_char_def digit_char_code)

lemma digit_char_eq: "(digit_char a = digit_char b) = (a mod 10 = b mod 10)"
proof -
  have "(digit_char a = digit_char b) = ((of_char (digit_char a) :: nat) = of_char (digit_char b))"
    by simp
  then show ?thesis by (simp only: digit_char_code) simp
qed

lemma pad2_less: "n < 100 \<Longrightarrow> m < 100 \<Longrightarrow> (pad2 n < pad2 m) = (n < m)"
proof -
  assume "n < 100" "m < 100"
  then have "n div 10 mod 10 = n div 10" "m div 10 mod 10 = m div 10" by simp_all
  then show ?thesis
    unfolding pad2_def by (simp add: digit_char_less digit_char_eq nat_less_digits [of n m])
qed

lemma pad2_eq: "n < 100 \<Longrightarrow> m < 100 \<Longrightarrow> (pad2 n = pad2 m) = (n = m)"
proof -
  assume "n < 100" "m < 100"
  then have "n div 10 mod 10 = n div 10" "m div 10 mod 10 = m div 10" by simp_all
  then show ?thesis
    unfolding pad2_def by (simp add: digit_char_eq nat_eq_digits [of n m])
qed

lemma pad4_order:
  assumes "n < 10000" "m < 10000"
  shows "(pad4 n < pad4 m) = (n < m)" and "(pad4 n = pad4 m) = (n = m)"
proof -
  have top: "n div 1000 mod 10 = n div 1000" "m div 1000 mod 10 = m div 1000"
    using assms by simp_all
  have dd: "k div 10 div 10 = k div 100" "k div 100 div 10 = k div 1000" for k :: nat
    by (simp_all add: div_mult2_eq [symmetric])
  have l1: "(n < m) = (n div 10 < m div 10 \<or> n div 10 = m div 10 \<and> n mod 10 < m mod 10)"
    by (rule nat_less_digits)
  have l2: "(n div 10 < m div 10) =
      (n div 100 < m div 100 \<or> n div 100 = m div 100 \<and> n div 10 mod 10 < m div 10 mod 10)"
    using nat_less_digits [of "n div 10" "m div 10"] by (simp add: dd)
  have l3: "(n div 100 < m div 100) =
      (n div 1000 < m div 1000 \<or> n div 1000 = m div 1000 \<and> n div 100 mod 10 < m div 100 mod 10)"
    using nat_less_digits [of "n div 100" "m div 100"] by (simp add: dd)
  have e1: "(n = m) = (n div 10 = m div 10 \<and> n mod 10 = m mod 10)"
    by (rule nat_eq_digits)
  have e2: "(n div 10 = m div 10) = (n div 100 = m div 100 \<and> n div 10 mod 10 = m div 10 mod 10)"
    using nat_eq_digits [of "n div 10" "m div 10"] by (simp add: dd)
  have e3: "(n div 100 = m div 100) =
      (n div 1000 = m div 1000 \<and> n div 100 mod 10 = m div 100 mod 10)"
    using nat_eq_digits [of "n div 100" "m div 100"] by (simp add: dd)
  have lhs: "(pad4 n < pad4 m) =
      (n div 1000 < m div 1000 \<or> n div 1000 = m div 1000 \<and>
        (n div 100 mod 10 < m div 100 mod 10 \<or> n div 100 mod 10 = m div 100 mod 10 \<and>
          (n div 10 mod 10 < m div 10 mod 10 \<or> n div 10 mod 10 = m div 10 mod 10 \<and>
            n mod 10 < m mod 10)))"
    unfolding pad4_def by (simp add: digit_char_less digit_char_eq top)
  have lhs_eq: "(pad4 n = pad4 m) =
      (n div 1000 = m div 1000 \<and> n div 100 mod 10 = m div 100 mod 10
       \<and> n div 10 mod 10 = m div 10 mod 10 \<and> n mod 10 = m mod 10)"
    unfolding pad4_def by (simp add: digit_char_eq top)
  show "(pad4 n < pad4 m) = (n < m)"
    unfolding lhs l1 l2 l3 e2 e3 by blast
  show "(pad4 n = pad4 m) = (n = m)"
    unfolding lhs_eq e1 e2 e3 by blast
qed

lemma pad2_le: "n < 100 \<Longrightarrow> m < 100 \<Longrightarrow> (pad2 n \<le> pad2 m) = (n \<le> m)"
  by (simp add: le_less pad2_less pad2_eq)

lemma pad_lengths: "length (pad2 n) = 2" "length (pad4 n) = 4"
  by (simp_all add: pad2_def pad4_def)

lemma strftime_order:
  assumes "valid_datetime a" "valid_datetime b"
  shows "(strftime a \<le> strftime b) = (take 6 (dt_fields a) \<le> take 6 (dt_fields b))"
proof -
  have ya: "year a < 10000" "month a < 100" "hour a < 100" "minute a < 100" "second a < 100"
    using assms(1) by (simp_all add: valid_datetime_def)
  have yb: "year b < 10000" "month b < 100" "hour b < 100" "minute b < 100" "second b < 100"
    using assms(2) by (simp_all add: valid_datetime_def)
  have dim: "days_in_month y m < 100" if "1 \<le> m" "m \<le> 12" for y m
  proof -
    have "m - 1 < 12" using that by simp
    then have "[31, 28, 31, 30, 31, 30, 31, 31, 30, 31, 30, 31] ! (m - 1) < (100::nat)"
      by (auto simp: nth_Cons less_Suc_eq numeral_eq_Suc split: nat.splits)
    then show ?thesis by (simp add: days_in_month_def)
  qed
  have da: "day a < 100" using assms(1) dim [of "month a" "year a"]
    by (simp add: valid_datetime_def)
  have db: "day b < 100" using assms(2) dim [of "month b" "year b"]
    by (simp add: valid_datetime_def)
  show ?thesis
    unfolding strftime_def dt_fields_def
    by (simp add: append_le_iff append_less_iff pad_lengths pad4_order [OF ya(1) yb(1)]
        pad2_less pad2_eq pad2_le ya yb da db le_less)
qed

subsection \<open>The invariants of the buffer\<close>

text \<open>
  Claim C9. After \<^verbatim>\<open>__init__\<close> and after every tick of the loop the two lists
  \<^verbatim>\<open>readings\<close> and \<^verbatim>\<open>timestamps\<close> have the same length: a tick appends exactly one
  element to each. The export relies on it: on every state the loop reaches, the data
  frame is built, and \<^verbatim>\<open>export_to_csv\<close> returns unless the file cannot be written.
\<close>

theorem lengths_agree:
  "length (readings (init existing)) = length (timestamps (init existing))
   \<and> length (readings (fst (tick_body location t s))) = length (readings s) + 1
   \<and> length (timestamps (fst (tick_body location t s))) = length (timestamps s) + 1
   \<and> length (readings (fst (monitoring_loop end_time location script (init existing))))
       = length (timestamps (fst (monitoring_loop end_time location script (init existing))))
   \<and> (\<exists>name s'. export_to_csv d None location
                   (fst (monitoring_loop end_time location script (init existing))) = Inr (name, s'))
   \<and> export_to_csv d (Some e) location
         (fst (monitoring_loop end_time location script (init existing))) = Inl e"
proof -
  have i: "length (readings (init existing)) = length (timestamps (init existing))"
    by (simp add: init_def)
  note l = loop_lengths [OF i, of end_time location script]
  show ?thesis
    using i l export_to_csv_ok [OF l, of d location] export_to_csv_write_fails [OF l, of d e location]
    by (simp add: tick_body_readings tick_body_timestamps)
qed

theorem lengths_agree_witness:
  "length (readings (fst (monitoring_loop 1060 ''Plant A'' (ticks (demo_short None None)) (init [])))) = 4
   \<and> length (timestamps (fst (monitoring_loop 1060 ''Plant A'' (ticks (demo_short None None)) (init [])))) = 4"
  using lengths_agree [of "[]" "''Plant A''" "demo_tick 0 0" "init []" 1060
      "ticks (demo_short None None)" "demo_time 61" OSError]
  by (simp add: demo_eval)

lemma sorted_wrt_take_map:
  "sorted_wrt P (map f xs) \<Longrightarrow> sorted_wrt P (map f (take k xs))"
  by (metis sorted_wrt_take take_map)

text \<open>
  Claim C6. Over any sequence of ticks the buffer only grows at its end: the lists
  before the ticks are prefixes of the lists after them, the tick number \<open>i\<close> that ran
  put its sample and its datetime at index \<open>length + i\<close>, so positions increase strictly
  with the ticks, and when the clock readings \<^verbatim>\<open>datetime.now()\<close> of the script do not
  decrease, neither do the datetimes in the buffer.
\<close>

theorem buffer_append_only:
  "let s' = fst (monitoring_loop end_time location script s);
       k = length (readings s') - length (readings s)
   in k \<le> length script
    \<and> readings s' = readings s @ map sample (take k script)
    \<and> timestamps s' = timestamps s @ map (\<lambda>t. Datetime (now t)) (take k script)
    \<and> prefix (readings s) (readings s') \<and> prefix (timestamps s) (timestamps s')
    \<and> (\<forall>i<k. readings s' ! (length (readings s) + i) = sample (script ! i)
             \<and> timestamps s' ! (length (timestamps s) + i) = Datetime (now (script ! i)))
    \<and> (sorted_wrt datetime_le (map now script) \<longrightarrow>
         sorted_wrt datetime_le (map now (take k script)))"
proof -
  define s' where "s' = fst (monitoring_loop end_time location script s)"
  obtain k where k: "k \<le> length script"
    "readings s' = readings s @ map sample (take k script)"
    "timestamps s' = timestamps s @ map (\<lambda>t. Datetime (now t)) (take k script)"
    using loop_buffer [of script end_time location s] unfolding s'_def by blast
  have len: "length (readings s') - length (readings s) = k"
    using k by simp
  have nth: "\<forall>i<k. readings s' ! (length (readings s) + i) = sample (script ! i)
             \<and> timestamps s' ! (length (timestamps s) + i) = Datetime (now (script ! i))"
    using k by (simp add: nth_append)
  have srt: "sorted_wrt datetime_le (map now script) \<longrightarrow>
         sorted_wrt datetime_le (map now (take k script))"
    by (simp add: sorted_wrt_take_map)
  show ?thesis
    unfolding Let_def s'_def [symmetric] len
    using k nth srt by (simp add: prefix_def)
qed

theorem buffer_append_only_witness:
  "sorted_wrt datetime_le (map now (ticks (demo_short None None)))
   \<and> readings (fst (monitoring_loop 1060 ''Plant A'' (ticks (demo_short None None)) (init [])))
       = [0, 1 / 200, 1 / 50, 3 / 20]
   \<and> prefix (readings (init []))
        (readings (fst (monitoring_loop 1060 ''Plant A'' (ticks (demo_short None None)) (init []))))
   \<and> sorted_wrt datetime_le (map now (take 3 (ticks (demo_short None None))))"
  using buffer_append_only [of 1060 "''Plant A''" "ticks (demo_short None None)" "init []"]
  by (simp add: demo_short_def demo_tick_def demo_time_def init_def tick_body_def
      calculate_risk_level_def datetime_le_def dt_fields_def Let_def prefix_def)

subsection \<open>The live view\<close>

text \<open>
  Claim C8. On every state, \<^verbatim>\<open>update_plot\<close> leaves \<^verbatim>\<open>readings\<close> and \<^verbatim>\<open>timestamps\<close>
  as they are: the state it returns differs from the state it received in the axis
  limits and the line data at most.
\<close>

theorem update_plot_frame:
  "readings (fst (update_plot frame s)) = readings s
   \<and> timestamps (fst (update_plot frame s)) = timestamps s
   \<and> fst (update_plot frame s) =
       s\<lparr>ax_xlim := ax_xlim (fst (update_plot frame s)),
         ax_ylim := ax_ylim (fst (update_plot frame s)),
         line_data := line_data (fst (update_plot frame s))\<rparr>"
  by (simp add: update_plot_def Let_def split: sum.splits list.splits)

theorem update_plot_frame_witness:
  "readings (fst (update_plot 0
      (fst (monitoring_loop 1060 ''Plant A'' (ticks (demo_short None None)) (init [])))))
     = [0, 5 / 1000, 2 / 100, 15 / 100]
   \<and> ax_xlim (fst (update_plot 0
      (fst (monitoring_loop 1060 ''Plant A'' (ticks (demo_short None None)) (init []))))) = (0, 15)
   \<and> ax_ylim (fst (update_plot 0
      (fst (monitoring_loop 1060 ''Plant A'' (ticks (demo_short None None)) (init []))))) = (0, 15 / 100)
   \<and> line_data (fst (update_plot 0
      (fst (monitoring_loop 1060 ''Plant A'' (ticks (demo_short None None)) (init [])))))
     = ([0, 5, 10], [5 / 1000, 2 / 100, 15 / 100])
   \<and> snd (update_plot 0
      (fst (monitoring_loop 1060 ''Plant A'' (ticks (demo_short None None)) (init [])))) = None"
  using update_plot_frame [of 0
      "fst (monitoring_loop 1060 ''Plant A'' (ticks (demo_short None None)) (init []))"]
  by (simp add: update_plot_def demo_eval total_seconds_def toordinal_def days_before_year_def
      days_before_month_def is_leap_def)

subsection \<open>The session\<close>

text \<open>
  Before the \<^verbatim>\<open>try\<close> statement: when it is not reached, the method is left with an
  exception and the system as it was, but for the two lines printed. With the module as
  it is, \<^verbatim>\<open>time\<close> is not bound, and that is every session.
\<close>

lemma rtm_not_reached:
  assumes "\<not> reaches_try w duration"
  shows "\<exists>e. real_time_monitoring w location duration s =
           Some (s\<lparr>stdout := stdout s @ [Starting location, PressCtrlC]\<rparr>, Some e)"
  using assms
  by (auto simp: real_time_monitoring_def reaches_try_def float_of_int_def Let_def
      split: option.splits)

lemma rtm_unbound:
  "\<not> time_bound w \<Longrightarrow>
   real_time_monitoring w location duration s =
     Some (s\<lparr>stdout := stdout s @ [Starting location, PressCtrlC]\<rparr>, Some NameError)"
  by (simp add: real_time_monitoring_def)

lemma rtm_reached:
  assumes "reaches_try w duration"
  shows "real_time_monitoring w location duration s =
     try_statement (start_clock w + real_of_int (duration * 60)) location (ticks w) (export_now w)
       (csv_write w) (s\<lparr>stdout := stdout s @ [Starting location, PressCtrlC]\<rparr>)"
  using assms by (simp add: real_time_monitoring_def reaches_try_def float_of_int_def Let_def)

lemma main_unfold:
  "main existing location_typed duration_typed w =
     real_time_monitoring w location_typed (fst (read_duration duration_typed))
       ((init existing)\<lparr>stdout := snd (read_duration duration_typed)\<rparr>)"
  by (simp add: main_def init_def split: prod.splits)

lemma loop_db_rows:
  "\<exists>new. db_rows (fst (monitoring_loop end_time location script s)) = db_rows s @ new
     \<and> (\<forall>r\<in>set new. Timestamp r \<noteq> ZeroInt)
     \<and> length new + length (readings s)
         \<le> length (readings (fst (monitoring_loop end_time location script s)))"
proof (induction script arbitrary: s)
  case Nil
  then show ?case by simp
next
  case (Cons t ts)
  obtain s' r where tb: "tick_body location t s = (s', r)" by (cases "tick_body location t s")
  have d: "db_rows s' = db_rows s @ (if \<not> db_closed s \<and> insert_outcome t = None
                  then [\<lparr> Timestamp = Datetime (now t), Location = location,
                          Concentration = sample t, Risk_Level = calculate_risk_level (sample t) \<rparr>]
                  else [])"
    and rd: "readings s' = readings s @ [sample t]"
    using tick_body_db_rows [of location t s] tick_body_readings [of location t s] tb by simp_all
  show ?case
  proof (cases "clock t < end_time")
    case False
    then show ?thesis by simp
  next
    case True
    show ?thesis
    proof (cases r)
      case (Some e)
      with True tb d rd show ?thesis by simp
    next
      case None
      from Cons.IH [of s'] obtain new where
        n: "db_rows (fst (monitoring_loop end_time location ts s')) = db_rows s' @ new"
           "\<forall>r\<in>set new. Timestamp r \<noteq> ZeroInt"
           "length new + length (readings s')
              \<le> length (readings (fst (monitoring_loop end_time location ts s')))"
        by blast
      show ?thesis
        using True tb None n d rd
        by (intro exI [of _ "(if \<not> db_closed s \<and> insert_outcome t = None
                  then [\<lparr> Timestamp = Datetime (now t), Location = location,
                          Concentration = sample t, Risk_Level = calculate_risk_level (sample t) \<rparr>]
                  else []) @ new"]) auto
    qed
  qed
qed

lemma export_rows_eq:
  assumes "length rs = length ts"
  shows "data_frame (tl ts) (replicate (length ts - 1) loc) (tl rs) (map f (tl rs)) =
         map (\<lambda>i. \<lparr> Timestamp = ts ! i, Location = loc, Concentration = rs ! i,
                     Risk_Level = f (rs ! i) \<rparr>) [1..<length rs]"
proof (rule nth_equalityI)
  have l: "length (replicate (length ts - 1) loc) = length (tl ts)"
          "length (tl rs) = length (tl ts)" "length (map f (tl rs)) = length (tl ts)"
    using assms by simp_all
  note df = data_frame_rows [OF l]
  show "length (data_frame (tl ts) (replicate (length ts - 1) loc) (tl rs) (map f (tl rs))) =
        length (map (\<lambda>i. \<lparr> Timestamp = ts ! i, Location = loc, Concentration = rs ! i,
                     Risk_Level = f (rs ! i) \<rparr>) [1..<length rs])"
    using df assms by simp
  fix i assume "i < length (data_frame (tl ts) (replicate (length ts - 1) loc) (tl rs) (map f (tl rs)))"
  then have i: "i < length (tl ts)" using df by simp
  then show "data_frame (tl ts) (replicate (length ts - 1) loc) (tl rs) (map f (tl rs)) ! i =
        map (\<lambda>i. \<lparr> Timestamp = ts ! i, Location = loc, Concentration = rs ! i,
                     Risk_Level = f (rs ! i) \<rparr>) [1..<length rs] ! i"
    using df assms by (simp add: nth_tl)
qed


text \<open>
  What a session from a fresh system has done when it returns. Until the \<^verbatim>\<open>try\<close>
  statement is reached nothing of the system changes but the output. After it, the
  buffer and the table are those of the loop; the file is written and the connection
  closed, unless a reading was recorded and the write raises.
\<close>

lemma session_from_init:
  assumes r: "real_time_monitoring w location duration (init existing) = Some (sf, e)"
  shows "(\<not> reaches_try w duration \<and> e \<noteq> None
           \<and> sf = (init existing)\<lparr>stdout := [Starting location, PressCtrlC]\<rparr>)
       \<or> (reaches_try w duration
           \<and> snd (monitoring_loop (start_clock w + real_of_int (duration * 60)) location (ticks w)
                 ((init existing)\<lparr>stdout := [Starting location, PressCtrlC]\<rparr>)) \<noteq> ScriptEnd
           \<and> readings sf = readings (fst (monitoring_loop (start_clock w + real_of_int (duration * 60))
                 location (ticks w) ((init existing)\<lparr>stdout := [Starting location, PressCtrlC]\<rparr>)))
           \<and> timestamps sf = timestamps (fst (monitoring_loop (start_clock w + real_of_int (duration * 60))
                 location (ticks w) ((init existing)\<lparr>stdout := [Starting location, PressCtrlC]\<rparr>)))
           \<and> db_rows sf = db_rows (fst (monitoring_loop (start_clock w + real_of_int (duration * 60))
                 location (ticks w) ((init existing)\<lparr>stdout := [Starting location, PressCtrlC]\<rparr>)))
           \<and> (if 1 < length (readings sf) \<and> csv_write w \<noteq> None
               then close_calls sf = 0 \<and> \<not> db_closed sf \<and> \<not> fig_closed sf \<and> csv_files sf = []
                    \<and> e = csv_write w
               else close_calls sf = 1 \<and> db_closed sf \<and> fig_closed sf
                    \<and> csv_files sf =
                       (if 1 < length (readings sf)
                        then [\<lparr> filename = ''asbestos_readings_'' @ strftime (export_now w) @ ''.csv'',
                             header = [''Timestamp'', ''Location'', ''Concentration'', ''Risk_Level''],
                             data_rows = data_frame (tl (timestamps sf))
                                (replicate (length (timestamps sf) - 1) location) (tl (readings sf))
                                (map calculate_risk_level (tl (readings sf))) \<rparr>]
                        else [])))"
proof (cases "reaches_try w duration")
  case False
  from rtm_not_reached [OF False, of location "init existing"] r False
  show ?thesis by (auto simp: init_def)
next
  case True
  define s0 where "s0 = (init existing)\<lparr>stdout := [Starting location, PressCtrlC]\<rparr>"
  define E where "E = start_clock w + real_of_int (duration * 60)"
  have s0: "(init existing)\<lparr>stdout := stdout (init existing) @ [Starting location, PressCtrlC]\<rparr> = s0"
    by (simp add: s0_def init_def)
  have ts: "try_statement E location (ticks w) (export_now w) (csv_write w) s0 = Some (sf, e)"
    using rtm_reached [OF True, of location "init existing"] r
    unfolding s0 E_def by simp
  have ex: "snd (monitoring_loop E location (ticks w) s0) \<noteq> ScriptEnd"
    using ts try_statement_None [of E location "ticks w" s0 "export_now w" "csv_write w"] by auto
  have len: "length (readings s0) = length (timestamps s0)"
    by (simp add: s0_def init_def)
  have z: "close_calls s0 = 0" "csv_files s0 = []" "\<not> db_closed s0" "\<not> fig_closed s0"
    by (simp_all add: s0_def init_def)
  show ?thesis
  proof (cases "1 < length (readings (fst (monitoring_loop E location (ticks w) s0)))
                 \<and> csv_write w \<noteq> None")
    case fails: True
    then obtain y where y: "csv_write w = Some y" by auto
    from try_statement_write_fails [OF len ex, of "export_now w" y] fails ts y z
    show ?thesis using True ex unfolding s0_def [symmetric] E_def [symmetric] by auto
  next
    case ok: False
    then have wr: "csv_write w = None
        \<or> length (readings (fst (monitoring_loop E location (ticks w) s0))) \<le> 1" by auto
    from try_statement_ends [OF len ex wr, of "export_now w"] ts
    have f: "readings sf = readings (fst (monitoring_loop E location (ticks w) s0))"
       "timestamps sf = timestamps (fst (monitoring_loop E location (ticks w) s0))"
       "db_rows sf = db_rows (fst (monitoring_loop E location (ticks w) s0))"
       "close_calls sf = close_calls s0 + 1" "db_closed sf" "fig_closed sf"
       "csv_files sf = csv_files s0 @
               (if 1 < length (readings sf)
                then [\<lparr> filename = ''asbestos_readings_'' @ strftime (export_now w) @ ''.csv'',
                     header = [''Timestamp'', ''Location'', ''Concentration'', ''Risk_Level''],
                     data_rows = data_frame (tl (timestamps sf))
                        (replicate (length (timestamps sf) - 1) location) (tl (readings sf))
                        (map calculate_risk_level (tl (readings sf))) \<rparr>]
                else [])"
      by auto
    with ok z show ?thesis
      using True ex unfolding s0_def [symmetric] E_def [symmetric] by auto
  qed
qed


lemma session_returns:
  assumes "t \<in> set (ticks w)"
      and "start_clock w + real_of_int (duration * 60) \<le> clock t
           \<or> insert_outcome t \<noteq> None \<or> pause_outcome t \<noteq> None"
      and "length (readings s) = length (timestamps s)"
  shows "\<exists>sf e. real_time_monitoring w location duration s = Some (sf, e)"
proof (cases "reaches_try w duration")
  case False
  from rtm_not_reached [OF False, of location s] show ?thesis by blast
next
  case True
  define s0 where "s0 = s\<lparr>stdout := stdout s @ [Starting location, PressCtrlC]\<rparr>"
  define E where "E = start_clock w + real_of_int (duration * 60)"
  have len: "length (readings s0) = length (timestamps s0)" using assms(3) by (simp add: s0_def)
  have lp: "snd (monitoring_loop E location (ticks w) s0) \<noteq> ScriptEnd"
    unfolding E_def by (rule loop_exits [OF assms(1,2)])
  have r: "real_time_monitoring w location duration s =
      try_statement E location (ticks w) (export_now w) (csv_write w) s0"
    unfolding s0_def E_def by (rule rtm_reached [OF True])
  show ?thesis
  proof (cases "1 < length (readings (fst (monitoring_loop E location (ticks w) s0)))
                 \<and> csv_write w \<noteq> None")
    case True
    then obtain y where y: "csv_write w = Some y" by auto
    from try_statement_write_fails [OF len lp, of "export_now w" y] True y r
    show ?thesis by auto
  next
    case False
    then have wr: "csv_write w = None
        \<or> length (readings (fst (monitoring_loop E location (ticks w) s0))) \<le> 1" by auto
    from try_statement_ends [OF len lp wr, of "export_now w"] r show ?thesis by auto
  qed
qed

text \<open>
  Where the \<^verbatim>\<open>try\<close> statement is reached and the file can be written, the session ends
  on each of the three ways out of the loop with the connection closed once and with
  one export file when a reading was recorded.
\<close>

lemma flush_once_where_written:
  assumes "reaches_try w duration" and "csv_write w = None" and "t \<in> set (ticks w)"
      and "start_clock w + real_of_int (duration * 60) \<le> clock t
           \<or> insert_outcome t \<noteq> None \<or> pause_outcome t \<noteq> None"
  shows "\<exists>sf e. real_time_monitoring w location duration (init existing) = Some (sf, e)
          \<and> close_calls sf = 1 \<and> db_closed sf \<and> fig_closed sf
          \<and> length (csv_files sf) = (if 1 < length (readings sf) then 1 else 0)"
proof -
  have len: "length (readings (init existing)) = length (timestamps (init existing))"
    by (simp add: init_def)
  from session_returns [OF assms(3,4) len, of location]
  obtain sf e where r: "real_time_monitoring w location duration (init existing) = Some (sf, e)"
    by blast
  from session_from_init [OF r] assms(1,2)
  have "close_calls sf = 1 \<and> db_closed sf \<and> fig_closed sf
          \<and> length (csv_files sf) = (if 1 < length (readings sf) then 1 else 0)"
    by auto
  with r show ?thesis by blast
qed

text \<open>
  Where a reading was recorded and the file cannot be written, the session ends with the
  exception of the write, and the connection has not been closed.
\<close>

lemma release_skipped_when_write_fails:
  assumes "real_time_monitoring w location duration (init existing) = Some (sf, e)"
      and "1 < length (readings sf)" and "csv_write w = Some y"
  shows "e = Some y \<and> close_calls sf = 0 \<and> \<not> db_closed sf \<and> \<not> fig_closed sf \<and> csv_files sf = []"
  using session_from_init [OF assms(1)] assms(2,3) by (auto simp: init_def)

lemma release_skipped_before_try:
  assumes "\<not> reaches_try w duration"
  shows "\<exists>e. real_time_monitoring w location duration (init existing) =
           Some ((init existing)\<lparr>stdout := [Starting location, PressCtrlC]\<rparr>, Some e)
         \<and> close_calls ((init existing)\<lparr>stdout := [Starting location, PressCtrlC]\<rparr>) = 0
         \<and> \<not> db_closed ((init existing)\<lparr>stdout := [Starting location, PressCtrlC]\<rparr>)"
  using rtm_not_reached [OF assms, of location "init existing"] by (auto simp: init_def)

text \<open>
  Claim C2. A session that records a reading is to end, whichever way its loop is left,
  with the exporter called once and the connection closed exactly once. The program
  does not keep this. Run as it is, with the answers \<^verbatim>\<open>Plant A\<close> and \<^verbatim>\<open>1\<close>, the session
  stops at line 88 with \<^verbatim>\<open>NameError\<close>: no reading, no export file, and the connection
  is never closed. And where \<^verbatim>\<open>time\<close> is bound, a session that has recorded two readings
  and whose file cannot be written ends with the exception of the write and the
  connection still open: line 152 comes after the export in the \<^verbatim>\<open>finally\<close> clause.
\<close>

theorem release_skipped_as_shipped:
  "real_time_monitoring shipped_world ''Plant A'' 1 (init []) =
     Some ((init [])\<lparr>stdout := [Starting ''Plant A'', PressCtrlC]\<rparr>, Some NameError)
   \<and> readings (fst (the (real_time_monitoring shipped_world ''Plant A'' 1 (init [])))) = [0]
   \<and> csv_files (fst (the (real_time_monitoring shipped_world ''Plant A'' 1 (init [])))) = []
   \<and> close_calls (fst (the (real_time_monitoring shipped_world ''Plant A'' 1 (init [])))) = 0
   \<and> db_closed (fst (the (real_time_monitoring shipped_world ''Plant A'' 1 (init [])))) = False
   \<and> snd (the (real_time_monitoring
                 ((demo_short None (Some KeyboardInterrupt))\<lparr>csv_write := Some OSError\<rparr>)
                 ''Plant A'' 1 (init []))) = Some OSError
   \<and> readings (fst (the (real_time_monitoring
                 ((demo_short None (Some KeyboardInterrupt))\<lparr>csv_write := Some OSError\<rparr>)
                 ''Plant A'' 1 (init [])))) = [0, 5 / 1000, 2 / 100]
   \<and> close_calls (fst (the (real_time_monitoring
                 ((demo_short None (Some KeyboardInterrupt))\<lparr>csv_write := Some OSError\<rparr>)
                 ''Plant A'' 1 (init [])))) = 0
   \<and> db_closed (fst (the (real_time_monitoring
                 ((demo_short None (Some KeyboardInterrupt))\<lparr>csv_write := Some OSError\<rparr>)
                 ''Plant A'' 1 (init [])))) = False"
  by (simp add: demo_eval)

subsection \<open>The export\<close>

lemma session_buffer_shape:
  assumes "real_time_monitoring w location duration (init existing) = Some (sf, e)"
  shows "\<exists>run :: tick list. readings sf = 0 # map sample run
             \<and> timestamps sf = ZeroInt # map (\<lambda>t. Datetime (now t)) run"
proof (cases "reaches_try w duration")
  case False
  with session_from_init [OF assms] show ?thesis by (intro exI [of _ "[]"]) (auto simp: init_def)
next
  case True
  define s0 where "s0 = (init existing)\<lparr>stdout := [Starting location, PressCtrlC]\<rparr>"
  define E where "E = start_clock w + real_of_int (duration * 60)"
  from session_from_init [OF assms] True
  have sf: "readings sf = readings (fst (monitoring_loop E location (ticks w) s0))"
           "timestamps sf = timestamps (fst (monitoring_loop E location (ticks w) s0))"
    unfolding s0_def E_def by simp_all
  from loop_buffer [of "ticks w" E location s0] obtain k where
    "readings (fst (monitoring_loop E location (ticks w) s0)) = readings s0 @ map sample (take k (ticks w))"
    "timestamps (fst (monitoring_loop E location (ticks w) s0))
        = timestamps s0 @ map (\<lambda>t. Datetime (now t)) (take k (ticks w))"
    by blast
  with sf show ?thesis by (intro exI [of _ "take k (ticks w)"]) (simp add: s0_def init_def)
qed

text \<open>
  Claim C5. At the end of a session the export, when there is one (a reading was
  recorded and the file could be written), is a single file named
  \<^verbatim>\<open>asbestos_readings_\<close>, then the time of the export as \<^verbatim>\<open>%Y%m%d_%H%M%S\<close>, then
  \<^verbatim>\<open>.csv\<close>; its header is Timestamp, Location, Concentration, Risk_Level; its rows are
  the entries \<open>1, 2, ...\<close> of the buffer, one each, in that order. The seed entry is
  entry \<open>0\<close>; no exported row and no row that the session inserted into the table has
  the seed's timestamp. The time stamp in the name sorts: on valid datetimes from the
  year 1000 on, the order of the strings is the order of the times, to the second.
\<close>

theorem export_one_row_per_reading:
  assumes "real_time_monitoring w location duration (init existing) = Some (sf, e)"
  shows "csv_files sf =
           (if 1 < length (readings sf) \<and> csv_write w = None
            then [\<lparr> filename = ''asbestos_readings_'' @ strftime (export_now w) @ ''.csv'',
                     header = [''Timestamp'', ''Location'', ''Concentration'', ''Risk_Level''],
                     data_rows = map (\<lambda>i. \<lparr> Timestamp = timestamps sf ! i, Location = location,
                                             Concentration = readings sf ! i,
                                             Risk_Level = calculate_risk_level (readings sf ! i) \<rparr>)
                                     [1..<length (readings sf)] \<rparr>]
            else [])
       \<and> (\<forall>f\<in>set (csv_files sf). length (data_rows f) = length (readings sf) - 1
                                   \<and> (\<forall>r\<in>set (data_rows f). Timestamp r \<noteq> ZeroInt))
       \<and> length (timestamps sf) = length (readings sf)
       \<and> readings sf ! 0 = 0 \<and> timestamps sf ! 0 = ZeroInt
       \<and> (\<forall>i. 1 \<le> i \<and> i < length (readings sf) \<longrightarrow> timestamps sf ! i \<noteq> ZeroInt)
       \<and> (\<exists>new. db_rows sf = existing @ new \<and> (\<forall>r\<in>set new. Timestamp r \<noteq> ZeroInt)
                \<and> length new \<le> length (readings sf) - 1)
       \<and> (\<forall>a b. valid_datetime a \<and> valid_datetime b \<and> 1000 \<le> year a \<and> 1000 \<le> year b \<longrightarrow>
              (strftime a \<le> strftime b) = (take 6 (dt_fields a) \<le> take 6 (dt_fields b)))"
proof -
  from session_buffer_shape [OF assms] obtain run :: "tick list" where
    run: "readings sf = 0 # map sample run" "timestamps sf = ZeroInt # map (\<lambda>t. Datetime (now t)) run"
    by blast
  have len: "length (readings sf) = length (timestamps sf)" using run by simp
  have seed: "readings sf ! 0 = 0 \<and> timestamps sf ! 0 = ZeroInt" using run by simp
  have nz: "\<forall>i. 1 \<le> i \<and> i < length (readings sf) \<longrightarrow> timestamps sf ! i \<noteq> ZeroInt"
    using run by (auto simp: nth_Cons split: nat.splits)
  have raw: "csv_files sf =
           (if 1 < length (readings sf) \<and> csv_write w = None
            then [\<lparr> filename = ''asbestos_readings_'' @ strftime (export_now w) @ ''.csv'',
                     header = [''Timestamp'', ''Location'', ''Concentration'', ''Risk_Level''],
                     data_rows = data_frame (tl (timestamps sf))
                        (replicate (length (timestamps sf) - 1) location) (tl (readings sf))
                        (map calculate_risk_level (tl (readings sf))) \<rparr>]
            else [])"
  proof (cases "reaches_try w duration")
    case False
    with session_from_init [OF assms] have "readings sf = [0]" "csv_files sf = []"
      by (auto simp: init_def)
    then show ?thesis by simp
  next
    case True
    with session_from_init [OF assms]
    have c: "if 1 < length (readings sf) \<and> csv_write w \<noteq> None
               then close_calls sf = 0 \<and> \<not> db_closed sf \<and> \<not> fig_closed sf \<and> csv_files sf = []
                    \<and> e = csv_write w
               else close_calls sf = 1 \<and> db_closed sf \<and> fig_closed sf
                    \<and> csv_files sf =
                       (if 1 < length (readings sf)
                        then [\<lparr> filename = ''asbestos_readings_'' @ strftime (export_now w) @ ''.csv'',
                             header = [''Timestamp'', ''Location'', ''Concentration'', ''Risk_Level''],
                             data_rows = data_frame (tl (timestamps sf))
                                (replicate (length (timestamps sf) - 1) location) (tl (readings sf))
                                (map calculate_risk_level (tl (readings sf))) \<rparr>]
                        else [])"
      by blast
    show ?thesis
    proof (cases "1 < length (readings sf) \<and> csv_write w \<noteq> None")
      case True
      with c show ?thesis by auto
    next
      case False
      with c show ?thesis by auto
    qed
  qed
  have files: "csv_files sf =
           (if 1 < length (readings sf) \<and> csv_write w = None
            then [\<lparr> filename = ''asbestos_readings_'' @ strftime (export_now w) @ ''.csv'',
                     header = [''Timestamp'', ''Location'', ''Concentration'', ''Risk_Level''],
                     data_rows = map (\<lambda>i. \<lparr> Timestamp = timestamps sf ! i, Location = location,
                                             Concentration = readings sf ! i,
                                             Risk_Level = calculate_risk_level (readings sf ! i) \<rparr>)
                                     [1..<length (readings sf)] \<rparr>]
            else [])"
    using raw unfolding export_rows_eq [OF len, of location calculate_risk_level] .

  have rows: "\<forall>f\<in>set (csv_files sf). length (data_rows f) = length (readings sf) - 1
                                   \<and> (\<forall>r\<in>set (data_rows f). Timestamp r \<noteq> ZeroInt)"
    unfolding files using nz by auto
  have db: "\<exists>new. db_rows sf = existing @ new \<and> (\<forall>r\<in>set new. Timestamp r \<noteq> ZeroInt)
                \<and> length new \<le> length (readings sf) - 1"
  proof (cases "reaches_try w duration")
    case False
    with session_from_init [OF assms] show ?thesis by (auto simp: init_def)
  next
    case True
    define s0 where "s0 = (init existing)\<lparr>stdout := [Starting location, PressCtrlC]\<rparr>"
    define E where "E = start_clock w + real_of_int (duration * 60)"
    from session_from_init [OF assms] True
    have sf: "readings sf = readings (fst (monitoring_loop E location (ticks w) s0))"
             "db_rows sf = db_rows (fst (monitoring_loop E location (ticks w) s0))"
      unfolding s0_def E_def by simp_all
    from loop_db_rows [of E location "ticks w" s0] sf show ?thesis
      by (auto simp: s0_def init_def)
  qed
  from files rows len seed nz db strftime_order show ?thesis by simp
qed

theorem export_one_row_per_reading_witness:
  "\<exists>sf e. real_time_monitoring (demo_short None (Some KeyboardInterrupt)) ''Plant A'' 1 (init []) = Some (sf, e)
     \<and> csv_files sf =
         [\<lparr> filename = ''asbestos_readings_20240517_100101.csv'',
            header = [''Timestamp'', ''Location'', ''Concentration'', ''Risk_Level''],
            data_rows =
              [\<lparr> Timestamp = Datetime (demo_time 0), Location = ''Plant A'',
                 Concentration = 1 / 200, Risk_Level = ''Low'' \<rparr>,
               \<lparr> Timestamp = Datetime (demo_time 5), Location = ''Plant A'',
                 Concentration = 1 / 50, Risk_Level = ''Medium'' \<rparr>] \<rparr>]
     \<and> valid_datetime (demo_time 5) \<and> valid_datetime (demo_time 61)
     \<and> 1000 \<le> year (demo_time 5) \<and> 1000 \<le> year (demo_time 61)
     \<and> strftime (demo_time 5) \<le> strftime (demo_time 61)"
proof -
  have len: "length (readings (init [])) = length (timestamps (init []))" by (simp add: init_def)
  have "\<exists>sf e. real_time_monitoring (demo_short None (Some KeyboardInterrupt)) ''Plant A'' 1 (init [])
          = Some (sf, e)"
    by (rule session_returns [of "(demo_tick 1 (2 / 100))\<lparr>insert_outcome := None,
           pause_outcome := Some KeyboardInterrupt\<rparr>"]) (simp_all add: demo_short_def init_def)
  then obtain sf e where
    r: "real_time_monitoring (demo_short None (Some KeyboardInterrupt)) ''Plant A'' 1 (init []) = Some (sf, e)"
    by blast
  have "fst (the (real_time_monitoring (demo_short None (Some KeyboardInterrupt)) ''Plant A'' 1 (init [])))
          = sf" using r by simp
  then have b: "readings sf = [0, 1 / 200, 1 / 50]"
     "timestamps sf = [ZeroInt, Datetime (demo_time 0), Datetime (demo_time 5)]"
    by (auto simp: demo_eval)
  have v: "valid_datetime (demo_time 5) \<and> valid_datetime (demo_time 61)
       \<and> 1000 \<le> year (demo_time 5) \<and> 1000 \<le> year (demo_time 61)"
    by (simp add: valid_datetime_def demo_time_def days_in_month_def is_leap_def)
  have u: "[1..<3] = [1, 2]" by (simp add: upt_rec)
  from export_one_row_per_reading [OF r] b v u
  have "csv_files sf =
         [\<lparr> filename = ''asbestos_readings_20240517_100101.csv'',
            header = [''Timestamp'', ''Location'', ''Concentration'', ''Risk_Level''],
            data_rows =
              [\<lparr> Timestamp = Datetime (demo_time 0), Location = ''Plant A'',
                 Concentration = 1 / 200, Risk_Level = ''Low'' \<rparr>,
               \<lparr> Timestamp = Datetime (demo_time 5), Location = ''Plant A'',
                 Concentration = 1 / 50, Risk_Level = ''Medium'' \<rparr>] \<rparr>]"
    and "strftime (demo_time 5) \<le> strftime (demo_time 61)"
    by (simp_all add: demo_short_def calculate_risk_level_def strftime_def pad4_def pad2_def
          digit_char_def demo_time_def dt_fields_def)
  with r v show ?thesis by blast
qed

subsection \<open>The samples of a tick\<close>





subsection \<open>A failed write\<close>








subsection \<open>The duration typed by the operator\<close>

lemma read_duration_cases:
  "read_duration [] = (60, [])"
  "typed \<noteq> [] \<Longrightarrow> py_int typed = None \<Longrightarrow> read_duration typed = (60, [InvalidDuration])"
  "typed \<noteq> [] \<Longrightarrow> py_int typed = Some n \<Longrightarrow> read_duration typed = (n, [])"
  by (simp_all add: read_duration_def py_int_def strip_def is_space_def py_nat_def is_digit_def
        digit_val_def)

text \<open>
  Claim C7, as amended. An empty answer gives the default of 60 minutes; an answer that
  \<^verbatim>\<open>int\<close> refuses gives 60 and the message; an answer that \<^verbatim>\<open>int\<close> accepts is handed to
  \<^verbatim>\<open>real_time_monitoring\<close> as it is, positive or not: \<^verbatim>\<open>main\<close> has no test of the sign,
  so a duration \<open>\<le> 0\<close> is neither refused nor replaced by the default.
\<close>

theorem duration_default_policy:
  "read_duration [] = (60, [])
   \<and> (duration_typed \<noteq> [] \<and> py_int duration_typed = None \<longrightarrow>
        read_duration duration_typed = (60, [InvalidDuration]))
   \<and> (duration_typed \<noteq> [] \<and> py_int duration_typed = Some n \<longrightarrow>
        read_duration duration_typed = (n, []))
   \<and> main existing location_typed duration_typed w =
       real_time_monitoring w location_typed (fst (read_duration duration_typed))
         ((init existing)\<lparr>stdout := snd (read_duration duration_typed)\<rparr>)
   \<and> (duration_typed \<noteq> [] \<and> py_int duration_typed = Some n \<and> n \<le> 0 \<longrightarrow>
        main existing location_typed duration_typed w =
          real_time_monitoring w location_typed n (init existing))"
proof -
  have through: "main existing location_typed duration_typed w =
          real_time_monitoring w location_typed n (init existing)"
    if ne: "duration_typed \<noteq> []" and p: "py_int duration_typed = Some n"
  proof -
    have rd: "read_duration duration_typed = (n, [])" by (rule read_duration_cases(3) [OF ne p])
    have st: "(init existing)\<lparr>stdout := []\<rparr> = init existing" by (simp add: init_def)
    show ?thesis unfolding main_unfold rd fst_conv snd_conv st by (rule refl)
  qed
  show ?thesis
    using through read_duration_cases(1) read_duration_cases(2) [of duration_typed]
      read_duration_cases(3) [of duration_typed n]
      main_unfold [of existing location_typed duration_typed w]
    by blast
qed

theorem duration_default_policy_witness:
  "py_int ''abc'' = None \<and> read_duration ''abc'' = (60, [InvalidDuration])
   \<and> py_int ''-5'' = Some (- 5) \<and> read_duration ''-5'' = (- 5, [])
   \<and> main [] ''Plant A'' ''-5'' shipped_world
       = real_time_monitoring shipped_world ''Plant A'' (- 5) (init [])"
proof -
  have a: "''abc'' \<noteq> [] \<and> py_int ''abc'' = None"
    by (simp add: py_int_def strip_def is_space_def py_nat_def is_digit_def)
  have b: "''-5'' \<noteq> [] \<and> py_int ''-5'' = Some (- 5) \<and> (- 5 :: int) \<le> 0"
    by (simp add: py_int_def strip_def is_space_def py_nat_def is_digit_def digit_val_def)
  from duration_default_policy [of "''abc''" 0 "[]" "''Plant A''" shipped_world]
       duration_default_policy [of "''-5''" "- 5" "[]" "''Plant A''" shipped_world] a b
  show ?thesis by blast
qed

text \<open>
  The claim as stated fails on the answers \<^verbatim>\<open>-5\<close> and \<^verbatim>\<open>0\<close>: the duration is neither
  refused nor replaced by 60. With the module as it is, the session is entered with
  \<open>-5\<close>, prints its two lines and stops at line 88, exactly as it does for the answer
  \<^verbatim>\<open>30\<close>.
\<close>

theorem non_positive_duration_counterexample:
  "read_duration ''-5'' = (- 5, []) \<and> read_duration ''0'' = (0, [])
   \<and> main [] ''Plant A'' ''-5'' shipped_world
       = real_time_monitoring shipped_world ''Plant A'' (- 5) (init [])
   \<and> main [] ''Plant A'' ''-5'' shipped_world
       = Some ((init [])\<lparr>stdout := [Starting ''Plant A'', PressCtrlC]\<rparr>, Some NameError)
   \<and> main [] ''Plant A'' ''-5'' shipped_world = main [] ''Plant A'' ''30'' shipped_world"
  by (simp add: main_def read_duration_def py_int_def strip_def is_space_def py_nat_def is_digit_def
        digit_val_def demo_eval)

end
